theory Spec2Isabelle
  imports Complex_Main
begin

section \<open>The drawing board component (src/components/DrawingBoard.jsx)\<close>

text \<open>
  The component is one React function, \<^verbatim>\<open>DrawingBoard\<close>, whose handlers talk to three
  things outside it: the React state cells (\<^verbatim>\<open>useState\<close>), the canvas element behind
  \<^verbatim>\<open>canvasRef\<close>, and the Supabase client. The model keeps the three apart.

  \<^item> React state. Every \<^verbatim>\<open>const [v, setV] = useState(..)\<close> binds \<^verbatim>\<open>v\<close> as a constant of
    one render. A handler is a closure created by that render: what it \<^emph>\<open>reads\<close> (\<^verbatim>\<open>user\<close>,
    \<^verbatim>\<open>isDrawing\<close>, \<^verbatim>\<open>currentColor\<close>, ...) is the render's value, also after the handler
    itself has called \<^verbatim>\<open>setV\<close>; what it \<^emph>\<open>writes\<close> with \<^verbatim>\<open>setV\<close> goes to the state the
    next render will show. So a handler that reads state cells takes the state record
    twice: \<open>r\<close>, the render it was created in (read only), and the world \<open>w\<close> whose
    \<open>react\<close> field the setters update. A function called from a handler
    (\<^verbatim>\<open>createNewDrawing\<close> from \<^verbatim>\<open>signIn\<close>) is a closure of the same render and gets the
    same \<open>r\<close>.
  \<^item> The canvas is a mutable object reached through a ref: reads and writes go to the
    world's \<open>canvas\<close> at once.
  \<^item> Supabase calls are requests appended to the world's call log; what the service
    answers is an argument of the handler (a \<open>reply\<close>), one per \<^verbatim>\<open>await\<close>.
  \<^item> \<^verbatim>\<open>Date.now()\<close>, \<^verbatim>\<open>prompt(..)\<close>, the pointer event and the canvas's bounding
    rectangle are arguments as well.

  JavaScript numbers are modelled as rationals (pointer coordinates, slider values);
  the rounding of floating-point arithmetic is not modelled.
\<close>

subsection \<open>Data\<close>

text \<open>The user object of Supabase Auth; the component reads \<^verbatim>\<open>id\<close> and \<^verbatim>\<open>email\<close>.\<close>

record auth_user =
  uid :: string
  uemail :: string

text \<open>A row of table \<^verbatim>\<open>drawings\<close>; \<^verbatim>\<open>canvas_data\<close> is nullable (\<open>None\<close> is SQL null).\<close>

record drawing =
  drawing_id :: string
  drawing_name :: string
  created_at :: nat
  created_by :: string
  is_public :: bool
  canvas_data :: "string option"

text \<open>The object literal handed to \<^verbatim>\<open>.from('drawings').insert(..)\<close>; \<^verbatim>\<open>createNewDrawing\<close>
  leaves \<^verbatim>\<open>canvas_data\<close> out (\<open>None\<close>).\<close>

record drawing_insert =
  ins_name :: string
  ins_is_public :: bool
  ins_canvas_data :: "string option"
  ins_created_by :: string

text \<open>The object literal handed to \<^verbatim>\<open>.from('drawing_strokes').insert(..)\<close>;
  \<^verbatim>\<open>drawing_id\<close> is the state cell \<^verbatim>\<open>currentDrawingId\<close>, which may be null.\<close>

record stroke =
  stroke_drawing_id :: "string option"
  stroke_user_id :: string
  stroke_x :: int
  stroke_y :: int
  stroke_color :: string
  stroke_brush_size :: int

text \<open>The requests the component sends to Supabase.\<close>

datatype request =
    SignInWithPassword string string
      \<comment> \<open>\<^verbatim>\<open>auth.signInWithPassword({ email, password })\<close>\<close>
  | SignOut
      \<comment> \<open>\<^verbatim>\<open>auth.signOut()\<close>\<close>
  | InsertDrawing drawing_insert
      \<comment> \<open>\<^verbatim>\<open>from('drawings').insert(..).select().single()\<close>\<close>
  | UpdateDrawing string string string
      \<comment> \<open>\<^verbatim>\<open>from('drawings').update({ canvas_data, name }).eq('id', id)\<close>: id, canvas_data, name\<close>
  | SelectDrawings string bool
      \<comment> \<open>\<^verbatim>\<open>from('drawings').select('id, name, created_at, canvas_data').order(column, { ascending })\<close>;
          no filter, no range, no limit\<close>
  | SelectCanvasData string
      \<comment> \<open>\<^verbatim>\<open>from('drawings').select('canvas_data').eq('id', id).single()\<close>\<close>
  | InsertStroke stroke
      \<comment> \<open>\<^verbatim>\<open>from('drawing_strokes').insert(..)\<close>\<close>

text \<open>What an awaited Supabase call gives back: the promise rejects (the \<^verbatim>\<open>await\<close> throws),
  or it resolves to \<^verbatim>\<open>{ data: null, error }\<close>, or to \<^verbatim>\<open>{ data, error: null }\<close>. The string is
  \<^verbatim>\<open>error.message\<close>.\<close>

datatype 'a reply = Rejected string | Failure string | Success 'a

text \<open>The calls on the 2D context of the canvas that the component makes.\<close>

datatype ctx_op =
    ClearRect nat nat nat nat
  | BeginPath
  | MoveTo rat rat
  | LineTo rat rat
  | SetStrokeStyle string
  | SetLineWidth int
  | Stroke
  | DrawImage string
      \<comment> \<open>\<^verbatim>\<open>drawImage(img, 0, 0)\<close>, the image named by its \<^verbatim>\<open>src\<close>\<close>
  | PutImageData "nat list"
      \<comment> \<open>\<^verbatim>\<open>putImageData(imageData, 0, 0)\<close> of a full-size image\<close>

datatype call = Ctx ctx_op | Supabase request

text \<open>The canvas element: its size, its RGBA bytes in row-major order (what
  \<^verbatim>\<open>getImageData(0, 0, width, height).data\<close> shows), and the context's current path and
  stroke settings.\<close>

record canvas =
  width :: nat
  height :: nat
  pixels :: "nat list"
  path :: "(rat \<times> rat) list list"
  strokeStyle :: string
  lineWidth :: int

text \<open>Rasterising a path, painting a decoded image and encoding the buffer are the
  browser's work, not the component's: they are parameters.\<close>

record browser =
  strokePixels :: "canvas \<Rightarrow> nat list"
  imagePixels :: "string \<Rightarrow> canvas \<Rightarrow> nat list"
  dataURL :: "canvas \<Rightarrow> string"

text \<open>The state cells of the component, with the names of the source.\<close>

record react_state =
  isDrawing :: bool
  currentColor :: string
  brushSize :: int
  user :: "auth_user option"
  savedDrawings :: "drawing list"
  currentDrawingId :: "string option"
  isLoading :: bool
  message :: string
  authMode :: string
  email :: string
  password :: string
  showAuthDropdown :: bool
  imageLoaded :: bool
  brightness :: rat
  contrast :: rat

record world =
  react :: react_state
  canvas :: canvas
  calls :: "call list"

text \<open>An async handler without \<^verbatim>\<open>try\<close> around its \<^verbatim>\<open>await\<close> ends in one of two ways.\<close>

datatype outcome = Returns world | Throws string world

record mouse_event =
  clientX :: rat
  clientY :: rat

record dom_rect =
  left :: rat
  top :: rat

text \<open>Whether an image whose \<^verbatim>\<open>src\<close> has been set fires \<^verbatim>\<open>onload\<close>. \<open>Broken\<close>, where it
  never does, is also what is seen for as long as a decode is still running.\<close>

datatype decode = Decoded | Broken

subsection \<open>The state setters\<close>

fun setIsDrawing :: "bool \<Rightarrow> world \<Rightarrow> world" where
  "setIsDrawing v w = w\<lparr>react := (react w)\<lparr>isDrawing := v\<rparr>\<rparr>"

fun setUser :: "auth_user option \<Rightarrow> world \<Rightarrow> world" where
  "setUser v w = w\<lparr>react := (react w)\<lparr>user := v\<rparr>\<rparr>"

fun setSavedDrawings :: "drawing list \<Rightarrow> world \<Rightarrow> world" where
  "setSavedDrawings v w = w\<lparr>react := (react w)\<lparr>savedDrawings := v\<rparr>\<rparr>"

fun setCurrentDrawingId :: "string option \<Rightarrow> world \<Rightarrow> world" where
  "setCurrentDrawingId v w = w\<lparr>react := (react w)\<lparr>currentDrawingId := v\<rparr>\<rparr>"

fun setIsLoading :: "bool \<Rightarrow> world \<Rightarrow> world" where
  "setIsLoading v w = w\<lparr>react := (react w)\<lparr>isLoading := v\<rparr>\<rparr>"

fun setMessage :: "string \<Rightarrow> world \<Rightarrow> world" where
  "setMessage v w = w\<lparr>react := (react w)\<lparr>message := v\<rparr>\<rparr>"

fun setEmail :: "string \<Rightarrow> world \<Rightarrow> world" where
  "setEmail v w = w\<lparr>react := (react w)\<lparr>email := v\<rparr>\<rparr>"

fun setPassword :: "string \<Rightarrow> world \<Rightarrow> world" where
  "setPassword v w = w\<lparr>react := (react w)\<lparr>password := v\<rparr>\<rparr>"

fun setShowAuthDropdown :: "bool \<Rightarrow> world \<Rightarrow> world" where
  "setShowAuthDropdown v w = w\<lparr>react := (react w)\<lparr>showAuthDropdown := v\<rparr>\<rparr>"

subsection \<open>The canvas\<close>

text \<open>\<^verbatim>\<open>clearRect(x, y, w, h)\<close> with whole-pixel arguments: byte \<open>i\<close> belongs to the pixel in
  column \<open>(i div 4) mod width\<close> and row \<open>(i div 4) div width\<close>, and is set to 0 when
  that pixel lies in the rectangle.\<close>

definition clearRect :: "nat \<Rightarrow> nat \<Rightarrow> nat \<Rightarrow> nat \<Rightarrow> canvas \<Rightarrow> nat list" where
  "clearRect x y w h c =
     map (\<lambda>i. if x \<le> (i div 4) mod width c \<and> (i div 4) mod width c < x + w \<and>
                  y \<le> (i div 4) div width c \<and> (i div 4) div width c < y + h
               then 0 else pixels c ! i)
         [0 ..< length (pixels c)]"

text \<open>\<^verbatim>\<open>lineTo\<close> on an empty path starts a subpath at the point, as the canvas
  specification says; a line width that is not positive is ignored. \<^verbatim>\<open>putImageData\<close>
  stores the bytes as given: a browser keeps its buffer with premultiplied alpha, so
  colour written under alpha 0 reads back as 0 there; the bytes are the same where
  what is written is what was read.\<close>

fun ctx_step :: "browser \<Rightarrow> ctx_op \<Rightarrow> canvas \<Rightarrow> canvas" where
  "ctx_step B (ClearRect x y w h) c = c\<lparr>pixels := clearRect x y w h c\<rparr>"
| "ctx_step B BeginPath c = c\<lparr>path := []\<rparr>"
| "ctx_step B (MoveTo x y) c = c\<lparr>path := path c @ [[(x, y)]]\<rparr>"
| "ctx_step B (LineTo x y) c =
     (if path c = [] then c\<lparr>path := [[(x, y)]]\<rparr>
      else c\<lparr>path := butlast (path c) @ [last (path c) @ [(x, y)]]\<rparr>)"
| "ctx_step B (SetStrokeStyle s) c = c\<lparr>strokeStyle := s\<rparr>"
| "ctx_step B (SetLineWidth n) c = (if 0 < n then c\<lparr>lineWidth := n\<rparr> else c)"
| "ctx_step B Stroke c = c\<lparr>pixels := strokePixels B c\<rparr>"
| "ctx_step B (DrawImage src) c = c\<lparr>pixels := imagePixels B src c\<rparr>"
| "ctx_step B (PutImageData d) c = c\<lparr>pixels := d\<rparr>"

text \<open>A context call changes the canvas and is logged; a Supabase call is logged.\<close>

definition ctx_call :: "browser \<Rightarrow> ctx_op \<Rightarrow> world \<Rightarrow> world" where
  "ctx_call B op w = w\<lparr>canvas := ctx_step B op (canvas w), calls := calls w @ [Ctx op]\<rparr>"

definition supabase_call :: "request \<Rightarrow> world \<Rightarrow> world" where
  "supabase_call q w = w\<lparr>calls := calls w @ [Supabase q]\<rparr>"

text \<open>The calls made between two worlds.\<close>

definition calls_since :: "world \<Rightarrow> world \<Rightarrow> call list" where
  "calls_since w w' = drop (length (calls w)) (calls w')"

text \<open>A canvas whose buffer has the size of its element, and the empty (transparent)
  buffer of that size.\<close>

definition wf_canvas :: "canvas \<Rightarrow> bool" where
  "wf_canvas c = (length (pixels c) = 4 * width c * height c)"

definition blank :: "canvas \<Rightarrow> nat list" where
  "blank c = replicate (4 * width c * height c) 0"

subsection \<open>Strings\<close>

text \<open>\<^verbatim>\<open>Date.now()\<close> is a non-negative integer; string concatenation writes it in decimal.\<close>

fun decimal :: "nat \<Rightarrow> string" where
  "decimal n = (if n < 10 then [''0123456789'' ! n]
                else decimal (n div 10) @ [''0123456789'' ! (n mod 10)])"

declare decimal.simps [simp del]

text \<open>The last characters of four message literals, with the bytes they have in the
  source file (emoji whose UTF-8 bytes were read as Windows-1252 and encoded again).\<close>

definition party_popper :: string where
  "party_popper = [CHR 0xC3, CHR 0xB0, CHR 0xC5, CHR 0xB8, CHR 0xC5, CHR 0xBD,
                   CHR 0xE2, CHR 0x80, CHR 0xB0]"

definition artist_palette :: string where
  "artist_palette = [CHR 0xC3, CHR 0xB0, CHR 0xC5, CHR 0xB8, CHR 0xC5, CHR 0xBD,
                     CHR 0xC2, CHR 0xA8]"

definition floppy_disk :: string where
  "floppy_disk = [CHR 0xC3, CHR 0xB0, CHR 0xC5, CHR 0xB8, CHR 0xE2, CHR 0x80, CHR 0x99,
                  CHR 0xC2, CHR 0xBE]"

text \<open>\<^verbatim>\<open>Math.round\<close>: the nearest integer, a tie going up.\<close>

definition Math_round :: "rat \<Rightarrow> int" where
  "Math_round x = \<lfloor>x + 1 / 2\<rfloor>"

subsection \<open>Database functions\<close>

text \<open>\<^verbatim>\<open>clearCanvas\<close>: \<^verbatim>\<open>ctx.clearRect(0, 0, canvas.width, canvas.height)\<close>.\<close>

definition clearCanvas :: "browser \<Rightarrow> world \<Rightarrow> world" where
  "clearCanvas B w = ctx_call B (ClearRect 0 0 (width (canvas w)) (height (canvas w))) w"

text \<open>\<^verbatim>\<open>loadSavedDrawings\<close>: one select, newest first; \<^verbatim>\<open>drawings || []\<close> on success, a
  message on an error.\<close>

definition loadSavedDrawings :: "drawing list option reply \<Rightarrow> world \<Rightarrow> world" where
  "loadSavedDrawings rep w =
     (let w1 = supabase_call (SelectDrawings ''created_at'' False) w in
      case rep of
        Success drawings \<Rightarrow>
          setSavedDrawings (case drawings of None \<Rightarrow> [] | Some ds \<Rightarrow> ds) w1
      | Failure m \<Rightarrow> setMessage (''Error loading drawings: '' @ m) w1
      | Rejected m \<Rightarrow> setMessage (''Error loading drawings: '' @ m) w1)"

text \<open>\<^verbatim>\<open>createNewDrawing\<close>: returns at once when the render's \<^verbatim>\<open>user\<close> is null. \<open>t1\<close> is
  \<^verbatim>\<open>Date.now()\<close> in the row's name, \<open>t2\<close> is \<^verbatim>\<open>Date.now()\<close> in the \<^verbatim>\<open>catch\<close> block.\<close>

definition createNewDrawing ::
  "react_state \<Rightarrow> nat \<Rightarrow> drawing reply \<Rightarrow> nat \<Rightarrow> world \<Rightarrow> world" where
  "createNewDrawing r t1 rep t2 w =
     (case user r of
        None \<Rightarrow> w
      | Some u \<Rightarrow>
          (let w1 = supabase_call
                      (InsertDrawing \<lparr>ins_name = ''Drawing '' @ decimal t1, ins_is_public = True,
                                      ins_canvas_data = None, ins_created_by = uid u\<rparr>) w in
           case rep of
             Success newDrawing \<Rightarrow>
               setMessage (''New drawing created! ID: '' @ drawing_id newDrawing)
                 (setCurrentDrawingId (Some (drawing_id newDrawing)) w1)
           | Failure m \<Rightarrow>
               setCurrentDrawingId (Some (''temp-'' @ decimal t2))
                 (setMessage (''Error creating drawing: '' @ m) w1)
           | Rejected m \<Rightarrow>
               setCurrentDrawingId (Some (''temp-'' @ decimal t2))
                 (setMessage (''Error creating drawing: '' @ m) w1)))"

text \<open>\<^verbatim>\<open>saveDrawingToDb\<close>: the update of the current row. No handler of the component
  calls it.\<close>

definition saveDrawingToDb ::
  "react_state \<Rightarrow> string \<Rightarrow> string option \<Rightarrow> nat \<Rightarrow> unit reply \<Rightarrow>
   drawing list option reply \<Rightarrow> world \<Rightarrow> world" where
  "saveDrawingToDb r url nm t rep list_rep w =
     (case currentDrawingId r of
        None \<Rightarrow> w
      | Some i \<Rightarrow>
          if i = [] then w
          else
            (let w1 = supabase_call
                        (UpdateDrawing i url
                           (case nm of None \<Rightarrow> ''Drawing '' @ decimal t
                            | Some n \<Rightarrow> if n = [] then ''Drawing '' @ decimal t else n)) w in
             case rep of
               Success _ \<Rightarrow>
                 loadSavedDrawings list_rep
                   (setMessage (''Drawing saved to database! '' @ floppy_disk) w1)
             | Failure m \<Rightarrow> setMessage ''Error saving drawing'' w1
             | Rejected m \<Rightarrow> setMessage ''Error saving drawing'' w1))"

text \<open>The \<^verbatim>\<open>onload\<close> handler that \<^verbatim>\<open>loadDrawing\<close> attaches to the image.\<close>

definition img_onload :: "browser \<Rightarrow> string \<Rightarrow> world \<Rightarrow> world" where
  "img_onload B src w = ctx_call B (DrawImage src) (clearCanvas B w)"

text \<open>\<^verbatim>\<open>loadDrawing\<close>: the select of one row's \<^verbatim>\<open>canvas_data\<close>; nothing at all when the row
  or its \<^verbatim>\<open>canvas_data\<close> is falsy. Otherwise the image's \<^verbatim>\<open>src\<close> is set, the id and the
  message are set, and \<^verbatim>\<open>onload\<close> runs afterwards if the image decodes (\<open>dec\<close>); the
  model runs it right after the handler, with no other event in between.\<close>

definition loadDrawing ::
  "browser \<Rightarrow> string \<Rightarrow> drawing option reply \<Rightarrow> decode \<Rightarrow> world \<Rightarrow> world" where
  "loadDrawing B drawingId rep dec w =
     (let w1 = supabase_call (SelectCanvasData drawingId) w in
      case rep of
        Success row \<Rightarrow>
          (case row of
             None \<Rightarrow> w1
           | Some d \<Rightarrow>
               (case canvas_data d of
                  None \<Rightarrow> w1
                | Some src \<Rightarrow>
                    if src = [] then w1
                    else
                      (let w2 = setMessage (''Drawing loaded! '' @ artist_palette)
                                  (setCurrentDrawingId (Some drawingId) w1) in
                       case dec of Decoded \<Rightarrow> img_onload B src w2 | Broken \<Rightarrow> w2)))
      | Failure m \<Rightarrow> setMessage ''Error loading drawing'' w1
      | Rejected m \<Rightarrow> setMessage ''Error loading drawing'' w1)"

subsection \<open>Authentication\<close>

text \<open>\<^verbatim>\<open>signIn\<close>: the two awaited calls after \<^verbatim>\<open>setUser\<close> are closures of the render
  that created \<^verbatim>\<open>signIn\<close>, so they get \<open>r\<close>.\<close>

definition signIn ::
  "react_state \<Rightarrow> auth_user reply \<Rightarrow> drawing list option reply \<Rightarrow> nat \<Rightarrow> drawing reply \<Rightarrow>
   nat \<Rightarrow> world \<Rightarrow> world" where
  "signIn r auth_rep list_rep t1 create_rep t2 w =
     (let w1 = supabase_call (SignInWithPassword (email r) (password r)) (setIsLoading True w) in
      case auth_rep of
        Success u \<Rightarrow>
          setIsLoading False
            (createNewDrawing r t1 create_rep t2
              (loadSavedDrawings list_rep
                (setShowAuthDropdown False
                  (setPassword []
                    (setEmail []
                      (setMessage (''Signed in successfully! '' @ party_popper)
                        (setUser (Some u) w1)))))))
      | Failure m \<Rightarrow> setIsLoading False (setMessage (''Error signing in: '' @ m) w1)
      | Rejected m \<Rightarrow> setIsLoading False (setMessage (''Error signing in: '' @ m) w1))"

text \<open>\<^verbatim>\<open>signOut\<close> has no \<^verbatim>\<open>try\<close>: a rejected call ends the handler with the exception.\<close>

definition signOut :: "browser \<Rightarrow> unit reply \<Rightarrow> world \<Rightarrow> outcome" where
  "signOut B rep w =
     (let w1 = supabase_call SignOut w in
      case rep of
        Rejected m \<Rightarrow> Throws m w1
      | Failure m \<Rightarrow> Returns (setMessage (''Error signing out: '' @ m) w1)
      | Success _ \<Rightarrow>
          Returns (setMessage ''Signed out successfully''
                    (clearCanvas B
                      (setCurrentDrawingId None (setSavedDrawings [] (setUser None w1))))))"

subsection \<open>Drawing functions\<close>

definition startDrawing :: "browser \<Rightarrow> react_state \<Rightarrow> mouse_event \<Rightarrow> dom_rect \<Rightarrow> world \<Rightarrow> world" where
  "startDrawing B r e rect w =
     (case user r of
        None \<Rightarrow> setMessage ''Please sign in to start drawing!'' w
      | Some u \<Rightarrow>
          (let x = clientX e - left rect;
               y = clientY e - top rect in
           ctx_call B (MoveTo x y) (ctx_call B BeginPath (setIsDrawing True w))))"

text \<open>\<^verbatim>\<open>draw\<close>: the four context calls, then the insert inside \<^verbatim>\<open>try\<close>; nothing follows
  the \<^verbatim>\<open>await\<close>, and the \<^verbatim>\<open>catch\<close> block sets no state, so the three replies end alike.
  (The older copies of the file throw the returned error inside the \<^verbatim>\<open>try\<close> and log it
  to the console in the \<^verbatim>\<open>catch\<close>; the state is the same.)\<close>

definition draw ::
  "browser \<Rightarrow> react_state \<Rightarrow> mouse_event \<Rightarrow> dom_rect \<Rightarrow> unit reply \<Rightarrow> world \<Rightarrow> world" where
  "draw B r e rect rep w =
     (case (isDrawing r, user r) of
        (True, Some u) \<Rightarrow>
          (let x = clientX e - left rect;
               y = clientY e - top rect;
               w1 = ctx_call B Stroke
                      (ctx_call B (LineTo x y)
                        (ctx_call B (SetLineWidth (brushSize r))
                          (ctx_call B (SetStrokeStyle (currentColor r)) w)));
               w2 = supabase_call
                      (InsertStroke \<lparr>stroke_drawing_id = currentDrawingId r,
                                     stroke_user_id = uid u,
                                     stroke_x = Math_round x, stroke_y = Math_round y,
                                     stroke_color = currentColor r,
                                     stroke_brush_size = brushSize r\<rparr>) w1 in
           case rep of Success _ \<Rightarrow> w2 | Failure m \<Rightarrow> w2 | Rejected m \<Rightarrow> w2)
      | _ \<Rightarrow> w)"

definition stopDrawing :: "world \<Rightarrow> world" where
  "stopDrawing w = setIsDrawing False w"

text \<open>\<^verbatim>\<open>saveDrawing\<close>: \<open>answer\<close> is what \<^verbatim>\<open>prompt(..)\<close> returns (null when cancelled), \<open>t\<close> is
  \<^verbatim>\<open>Date.now()\<close>.\<close>

definition saveDrawing ::
  "browser \<Rightarrow> react_state \<Rightarrow> string option \<Rightarrow> nat \<Rightarrow> drawing reply \<Rightarrow>
   drawing list option reply \<Rightarrow> world \<Rightarrow> world" where
  "saveDrawing B r answer t rep list_rep w =
     (case user r of
        None \<Rightarrow> setMessage ''Please sign in first!'' w
      | Some u \<Rightarrow>
          (let url = dataURL B (canvas w);
               nm = (case answer of None \<Rightarrow> ''Drawing '' @ decimal t
                     | Some n \<Rightarrow> if n = [] then ''Drawing '' @ decimal t else n);
               w1 = supabase_call
                      (InsertDrawing \<lparr>ins_name = nm, ins_is_public = True,
                                      ins_canvas_data = Some url, ins_created_by = uid u\<rparr>) w in
           case rep of
             Success newDrawing \<Rightarrow>
               loadSavedDrawings list_rep
                 (setCurrentDrawingId (Some (drawing_id newDrawing))
                   (setMessage (''Drawing saved successfully! '' @ artist_palette) w1))
           | Failure m \<Rightarrow> setMessage (''Error saving drawing: '' @ m) w1
           | Rejected m \<Rightarrow> setMessage (''Error saving drawing: '' @ m) w1))"

subsection \<open>Brightness and contrast\<close>

text \<open>Storing a number into a \<^verbatim>\<open>Uint8ClampedArray\<close>: clamped to 0..255 and rounded to
  the nearest integer, a tie going to the even one.\<close>

definition toUint8Clamp :: "rat \<Rightarrow> nat" where
  "toUint8Clamp x =
     (if x \<le> 0 then 0
      else if 255 \<le> x then 255
      else (let f = \<lfloor>x\<rfloor> in
            if of_int f + 1 / 2 < x then nat (f + 1)
            else if x < of_int f + 1 / 2 then nat f
            else if even f then nat f else nat (f + 1)))"

text \<open>The two assignments to a colour channel in the loop body. \<^verbatim>\<open>data[i] = Math.min(255,
  data[i] * b)\<close> cuts at 255 only; the store into the typed array rounds.
  \<^verbatim>\<open>data[i] = ((data[i] - 128) * c + 128)\<close> reads the byte just stored.

  The factors are rationals here and doubles in the code. The two agree when the factor
  is a double itself (100 / 100, 50 / 100, 150 / 100); for a factor such as 55 / 100 the
  double is a little off, and a product that is an exact tie in the rationals is rounded
  the other way by the code (byte 110 at brightness 55: 60 here, 61 in the code).\<close>

definition brighten :: "rat \<Rightarrow> nat \<Rightarrow> nat" where
  "brighten b v = toUint8Clamp (min 255 (of_nat v * b))"

definition rescale :: "rat \<Rightarrow> nat \<Rightarrow> nat" where
  "rescale c v = toUint8Clamp ((of_nat v - 128) * c + 128)"

text \<open>The loop body brightens the three channels and then rescales the three; a channel
  does not depend on the others, so each one is brightened and then rescaled.\<close>

definition adjust_channel :: "rat \<Rightarrow> rat \<Rightarrow> nat \<Rightarrow> nat" where
  "adjust_channel b c v = rescale c (brighten b v)"

text \<open>The loop \<^verbatim>\<open>for (i = 0; i < data.length; i += 4)\<close>: three channels adjusted, alpha
  kept. A write past the end of a typed array is ignored, which gives the last three
  equations; the data of a canvas always has a multiple of four bytes.\<close>

fun adjust_data :: "rat \<Rightarrow> rat \<Rightarrow> nat list \<Rightarrow> nat list" where
  "adjust_data b c (r # g # bl # a # rest) =
     adjust_channel b c r # adjust_channel b c g # adjust_channel b c bl # a #
       adjust_data b c rest"
| "adjust_data b c [r, g, bl] = [adjust_channel b c r, adjust_channel b c g, adjust_channel b c bl]"
| "adjust_data b c [r, g] = [adjust_channel b c r, adjust_channel b c g]"
| "adjust_data b c [r] = [adjust_channel b c r]"
| "adjust_data b c [] = []"

definition handleAdjust :: "browser \<Rightarrow> react_state \<Rightarrow> world \<Rightarrow> world" where
  "handleAdjust B r w =
     (let b = brightness r / 100;
          c = contrast r / 100 in
      ctx_call B (PutImageData (adjust_data b c (pixels (canvas w)))) w)"

subsection \<open>A page just loaded\<close>

text \<open>The \<^verbatim>\<open>useState\<close> defaults, and a canvas of the size of its element with nothing
  drawn (the defaults of a 2D context).\<close>

definition initial_react :: react_state where
  "initial_react =
     \<lparr>isDrawing = False, currentColor = ''#000000'', brushSize = 5, user = None,
      savedDrawings = [], currentDrawingId = None, isLoading = False, message = [],
      authMode = ''signin'', email = [], password = [], showAuthDropdown = False,
      imageLoaded = False, brightness = 100, contrast = 100\<rparr>"

definition initial_world :: "nat \<Rightarrow> nat \<Rightarrow> world" where
  "initial_world W H =
     \<lparr>react = initial_react,
      canvas = \<lparr>width = W, height = H, pixels = replicate (4 * W * H) 0, path = [],
                strokeStyle = ''#000000'', lineWidth = 1\<rparr>,
      calls = []\<rparr>"

text \<open>A stand-in for the browser's rendering, to run the model on concrete inputs: a
  stroke paints every byte 255, an image paints its \<^verbatim>\<open>src\<close>'s length into every byte,
  and the export is a fixed prefix followed by the byte count.\<close>

definition test_browser :: browser where
  "test_browser =
     \<lparr>strokePixels = (\<lambda>c. map (\<lambda>_. 255) (pixels c)),
      imagePixels = (\<lambda>src c. map (\<lambda>_. length src) (pixels c)),
      dataURL = (\<lambda>c. ''data:image/png;base64,'' @ decimal (length (pixels c)))\<rparr>"

subsection \<open>Reading the call log; sample values\<close>

text \<open>The Supabase requests among a list of calls, in order.\<close>

fun requests :: "call list \<Rightarrow> request list" where
  "requests [] = []"
| "requests (Supabase q # cs) = q # requests cs"
| "requests (Ctx op # cs) = requests cs"

text \<open>A user, a render in which she is signed in and the pointer is down with the red
  of the palette, a one-pixel canvas holding an opaque red pixel, and a stored row.\<close>

definition alice :: auth_user where
  "alice = \<lparr>uid = ''u1'', uemail = ''alice@example.com''\<rparr>"

definition pen_down :: react_state where
  "pen_down = initial_react\<lparr>isDrawing := True, currentColor := ''#ef4444'',
                             user := Some alice, currentDrawingId := Some ''d1''\<rparr>"

definition red_dot :: world where
  "red_dot =
     (initial_world 1 1)\<lparr>canvas := (canvas (initial_world 1 1))\<lparr>pixels := [255, 0, 0, 255]\<rparr>\<rparr>"

definition stored :: "string \<Rightarrow> string option \<Rightarrow> drawing" where
  "stored i cd = \<lparr>drawing_id = i, drawing_name = ''Sunset'', created_at = 1,
                  created_by = ''u1'', is_public = True, canvas_data = cd\<rparr>"

text \<open>The sign-in form filled in on a page just loaded. The form is rendered only while
  \<^verbatim>\<open>user\<close> is null (\<^verbatim>\<open>{!user && (..)}\<close>).\<close>

definition sign_in_form :: world where
  "sign_in_form = setPassword ''secret'' (setEmail ''alice@example.com'' (initial_world 2 2))"



section \<open>Properties\<close>

subsection \<open>Calls and their effect on the world\<close>

lemma react_ctx_call [simp]: "react (ctx_call B op w) = react w"
  by (simp add: ctx_call_def)

lemma canvas_ctx_call [simp]: "canvas (ctx_call B op w) = ctx_step B op (canvas w)"
  by (simp add: ctx_call_def)

lemma calls_ctx_call [simp]: "calls (ctx_call B op w) = calls w @ [Ctx op]"
  by (simp add: ctx_call_def)

lemma react_supabase_call [simp]: "react (supabase_call q w) = react w"
  by (simp add: supabase_call_def)

lemma canvas_supabase_call [simp]: "canvas (supabase_call q w) = canvas w"
  by (simp add: supabase_call_def)

lemma calls_supabase_call [simp]: "calls (supabase_call q w) = calls w @ [Supabase q]"
  by (simp add: supabase_call_def)

lemma react_clearCanvas [simp]: "react (clearCanvas B w) = react w"
  by (simp add: clearCanvas_def)

lemma calls_clearCanvas [simp]:
  "calls (clearCanvas B w) = calls w @ [Ctx (ClearRect 0 0 (width (canvas w)) (height (canvas w)))]"
  by (simp add: clearCanvas_def)

text \<open>Clearing the rectangle of the whole element empties a buffer of the element's
  size: every byte index below \<open>4 * width * height\<close> lies in a pixel of the rectangle.\<close>

lemma clearRect_whole:
  assumes "wf_canvas c"
  shows "clearRect 0 0 (width c) (height c) c = blank c"
proof -
  have inside: "(i div 4) mod width c < width c \<and> (i div 4) div width c < height c"
    if "i < length (pixels c)" for i
  proof -
    from that assms have "i < 4 * (width c * height c)"
      by (simp add: wf_canvas_def mult.assoc)
    then have "i div 4 < width c * height c" by auto
    moreover from this have "0 < width c" by (cases "width c") auto
    ultimately show ?thesis
      by (simp add: less_mult_imp_div_less mult.commute)
  qed
  have "clearRect 0 0 (width c) (height c) c = map (\<lambda>i. 0) [0 ..< length (pixels c)]"
    unfolding clearRect_def by (rule map_cong) (auto simp: inside)
  also have "\<dots> = replicate (length (pixels c)) 0"
    by (simp add: map_replicate_const)
  finally show ?thesis using assms by (simp add: blank_def wf_canvas_def)
qed

lemma canvas_clearCanvas:
  "wf_canvas (canvas w) \<Longrightarrow> pixels (canvas (clearCanvas B w)) = blank (canvas w)"
  by (simp add: clearCanvas_def clearRect_whole)

lemma calls_loadSavedDrawings [simp]:
  "calls (loadSavedDrawings rep w) = calls w @ [Supabase (SelectDrawings ''created_at'' False)]"
  by (simp add: loadSavedDrawings_def Let_def split: reply.splits)

lemma canvas_loadSavedDrawings [simp]: "canvas (loadSavedDrawings rep w) = canvas w"
  by (simp add: loadSavedDrawings_def Let_def split: reply.splits)

lemma currentDrawingId_loadSavedDrawings [simp]:
  "currentDrawingId (react (loadSavedDrawings rep w)) = currentDrawingId (react w)"
  by (simp add: loadSavedDrawings_def Let_def split: reply.splits)

lemma user_loadSavedDrawings [simp]:
  "user (react (loadSavedDrawings rep w)) = user (react w)"
  by (simp add: loadSavedDrawings_def Let_def split: reply.splits)

lemma savedDrawings_loadSavedDrawings:
  "savedDrawings (react (loadSavedDrawings (Success (Some ds)) w)) = ds"
  by (simp add: loadSavedDrawings_def Let_def)

subsection \<open>Pointer handlers\<close>

text \<open>
  Claim C9. When the render has no user, \<^verbatim>\<open>startDrawing\<close> (beginStroke) leaves the canvas
  as it is, makes no call, and sets the message to the sign-in notice. When the render
  is not in a stroke or has no user, \<^verbatim>\<open>draw\<close> (extendStroke) returns the world it was
  given: the pixel buffer is unchanged and nothing is sent to \<^verbatim>\<open>drawing_strokes\<close>.
\<close>

theorem guards_without_identity:
  "(user r = None \<longrightarrow>
      canvas (startDrawing B r e rect w) = canvas w \<and>
      calls (startDrawing B r e rect w) = calls w \<and>
      message (react (startDrawing B r e rect w)) = ''Please sign in to start drawing!'') \<and>
   (\<not> isDrawing r \<or> user r = None \<longrightarrow> draw B r e rect rep w = w)"
  by (auto simp: startDrawing_def draw_def split: option.splits bool.splits)

theorem guards_without_identity_witness:
  "user initial_react = None \<and>
   canvas (startDrawing test_browser initial_react \<lparr>clientX = 110, clientY = 60\<rparr>
             \<lparr>left = 100, top = 50\<rparr> (initial_world 2 2)) = canvas (initial_world 2 2) \<and>
   message (react (startDrawing test_browser initial_react \<lparr>clientX = 110, clientY = 60\<rparr>
             \<lparr>left = 100, top = 50\<rparr> (initial_world 2 2))) = ''Please sign in to start drawing!'' \<and>
   draw test_browser initial_react \<lparr>clientX = 110, clientY = 60\<rparr> \<lparr>left = 100, top = 50\<rparr>
     (Success ()) (initial_world 2 2) = initial_world 2 2"
  using guards_without_identity
          [where r = initial_react and B = test_browser and w = "initial_world 2 2"
             and e = "\<lparr>clientX = 110, clientY = 60\<rparr>" and rect = "\<lparr>left = 100, top = 50\<rparr>"
             and rep = "Success ()"]
  by (simp add: initial_react_def)

text \<open>
  Claim C5. For a pointer move in a render that is in a stroke and has a user, the calls
  \<^verbatim>\<open>draw\<close> makes are, in this order, the two style assignments, \<^verbatim>\<open>lineTo\<close>, \<^verbatim>\<open>stroke\<close>
  and only then the insert into \<^verbatim>\<open>drawing_strokes\<close>; the canvas it leaves is the stroked
  one. A failed insert (an error returned
  or a rejected promise) ends exactly as a successful one, and no state cell is written:
  in particular the message is not touched.
\<close>

theorem draw_strokes_then_appends_silently:
  assumes "isDrawing r" and "user r = Some u"
  shows "(\<exists>s. calls_since w (draw B r e rect rep w) =
            [Ctx (SetStrokeStyle (currentColor r)), Ctx (SetLineWidth (brushSize r)),
             Ctx (LineTo (clientX e - left rect) (clientY e - top rect)), Ctx Stroke,
             Supabase (InsertStroke s)]) \<and>
         canvas (draw B r e rect rep w) =
           ctx_step B Stroke
             (ctx_step B (LineTo (clientX e - left rect) (clientY e - top rect))
               (ctx_step B (SetLineWidth (brushSize r))
                 (ctx_step B (SetStrokeStyle (currentColor r)) (canvas w)))) \<and>
         draw B r e rect (Failure m) w = draw B r e rect (Success ()) w \<and>
         draw B r e rect (Rejected m) w = draw B r e rect (Success ()) w \<and>
         react (draw B r e rect rep w) = react w"
  using assms by (auto simp: draw_def Let_def calls_since_def split: reply.splits)

theorem draw_strokes_then_appends_silently_witness:
  "isDrawing pen_down \<and> user pen_down = Some alice \<and>
   draw test_browser pen_down \<lparr>clientX = 110, clientY = 60\<rparr> \<lparr>left = 100, top = 50\<rparr>
     (Failure ''offline'') red_dot =
   draw test_browser pen_down \<lparr>clientX = 110, clientY = 60\<rparr> \<lparr>left = 100, top = 50\<rparr>
     (Success ()) red_dot \<and>
   react (draw test_browser pen_down \<lparr>clientX = 110, clientY = 60\<rparr> \<lparr>left = 100, top = 50\<rparr>
     (Failure ''offline'') red_dot) = react red_dot"
proof -
  have a: "isDrawing pen_down" and b: "user pen_down = Some alice"
    by (simp_all add: pen_down_def)
  show ?thesis
    using a b
      draw_strokes_then_appends_silently
        [OF a b, where B = test_browser and w = red_dot
           and e = "\<lparr>clientX = 110, clientY = 60\<rparr>" and rect = "\<lparr>left = 100, top = 50\<rparr>"
           and rep = "Failure ''offline''" and m = "''offline''"]
    by blast
qed

text \<open>
  Claim C8. A pointer move in a render that is in a stroke and has a user sends exactly
  one request, an insert into \<^verbatim>\<open>drawing_strokes\<close>, whose row holds the render's
  \<^verbatim>\<open>currentDrawingId\<close>, the user's id, the two canvas coordinates rounded with
  \<^verbatim>\<open>Math.round\<close>, and the render's colour and brush size. The witness is the
  specification's example: a move to (10, 10) with colour \<^verbatim>\<open>#ef4444\<close> and width 5.
\<close>

theorem draw_appends_one_stroke:
  assumes "isDrawing r" and "user r = Some u"
  shows "requests (calls_since w (draw B r e rect rep w)) =
           [InsertStroke \<lparr>stroke_drawing_id = currentDrawingId r, stroke_user_id = uid u,
                          stroke_x = Math_round (clientX e - left rect),
                          stroke_y = Math_round (clientY e - top rect),
                          stroke_color = currentColor r, stroke_brush_size = brushSize r\<rparr>]"
  using assms by (auto simp: draw_def Let_def calls_since_def split: reply.splits)

theorem draw_appends_one_stroke_witness:
  "isDrawing pen_down \<and> user pen_down = Some alice \<and>
   requests (calls_since (initial_world 2 2)
      (draw test_browser pen_down \<lparr>clientX = 110, clientY = 60\<rparr> \<lparr>left = 100, top = 50\<rparr>
         (Success ()) (initial_world 2 2))) =
     [InsertStroke \<lparr>stroke_drawing_id = Some ''d1'', stroke_user_id = ''u1'',
                    stroke_x = 10, stroke_y = 10, stroke_color = ''#ef4444'',
                    stroke_brush_size = 5\<rparr>]"
  using draw_appends_one_stroke
          [where r = pen_down and u = alice and B = test_browser and w = "initial_world 2 2"
             and e = "\<lparr>clientX = 110, clientY = 60\<rparr>" and rect = "\<lparr>left = 100, top = 50\<rparr>"
             and rep = "Success ()"]
  by (simp add: pen_down_def initial_react_def alice_def Math_round_def floor_eq_iff)

subsection \<open>Signing out\<close>

text \<open>
  Claim C6. On a canvas whose buffer has the element's size, \<^verbatim>\<open>signOut\<close> with a
  successful provider call returns with no user, an empty drawing list, no current
  drawing id and an empty pixel buffer. When the provider returns an error, the handler
  returns with the user, the list, the id and the canvas as they were (only the message
  is set); when the call rejects, the handler throws with every state cell and the
  canvas as they were.
\<close>

theorem signOut_all_or_nothing:
  assumes "wf_canvas (canvas w)"
  shows "(\<exists>w'. signOut B (Success x) w = Returns w' \<and> user (react w') = None \<and>
               savedDrawings (react w') = [] \<and> currentDrawingId (react w') = None \<and>
               pixels (canvas w') = blank (canvas w)) \<and>
         (\<exists>w'. signOut B (Failure m) w = Returns w' \<and> user (react w') = user (react w) \<and>
               savedDrawings (react w') = savedDrawings (react w) \<and>
               currentDrawingId (react w') = currentDrawingId (react w) \<and>
               canvas w' = canvas w \<and> message (react w') = ''Error signing out: '' @ m) \<and>
         (\<exists>w'. signOut B (Rejected m) w = Throws m w' \<and> react w' = react w \<and>
               canvas w' = canvas w)"
  using assms by (simp add: signOut_def Let_def canvas_clearCanvas)

theorem signOut_all_or_nothing_witness:
  "wf_canvas (canvas red_dot) \<and>
   (\<exists>w'. signOut test_browser (Success ()) red_dot = Returns w' \<and> user (react w') = None \<and>
         savedDrawings (react w') = [] \<and> currentDrawingId (react w') = None \<and>
         pixels (canvas w') = [0, 0, 0, 0]) \<and>
   (\<exists>w'. signOut test_browser (Failure ''offline'') red_dot = Returns w' \<and>
         pixels (canvas w') = [255, 0, 0, 255])"
proof -
  have wf: "wf_canvas (canvas red_dot)"
    by (simp add: red_dot_def initial_world_def wf_canvas_def)
  have bl: "blank (canvas red_dot) = [0, 0, 0, 0]"
    by (simp add: red_dot_def initial_world_def blank_def numeral_eq_Suc)
  have px: "pixels (canvas red_dot) = [255, 0, 0, 255]"
    by (simp add: red_dot_def)
  show ?thesis
    using wf signOut_all_or_nothing
                [OF wf, where B = test_browser and x = "()" and m = "''offline''"]
    by (auto simp: bl px)
qed

subsection \<open>Brightness and contrast at 100 / 100\<close>

lemma toUint8Clamp_byte: "v \<le> 255 \<Longrightarrow> toUint8Clamp (of_nat v) = v"
  by (auto simp: toUint8Clamp_def Let_def)

lemma brighten_unit: "v \<le> 255 \<Longrightarrow> brighten 1 v = v"
  by (simp add: brighten_def toUint8Clamp_byte)

lemma rescale_unit: "v \<le> 255 \<Longrightarrow> rescale 1 v = v"
  by (simp add: rescale_def toUint8Clamp_byte)

lemma adjust_channel_unit: "v \<le> 255 \<Longrightarrow> adjust_channel 1 1 v = v"
  by (simp add: adjust_channel_def brighten_unit rescale_unit)

text \<open>The order of the two steps matters: at brightness 150 and contrast 50 the byte 200
  becomes 192, and would become 246 if it were rescaled first.\<close>

lemma brighten_rescale_order:
  "rescale (50 / 100) (brighten (150 / 100) 200) = 192 \<and>
   brighten (150 / 100) (rescale (50 / 100) 200) = 246"
  by code_simp

lemma adjust_data_unit: "\<forall>v\<in>set ds. v \<le> 255 \<Longrightarrow> adjust_data 1 1 ds = ds"
  by (induction "1::rat" "1::rat" ds rule: adjust_data.induct)
     (simp_all add: adjust_channel_unit)

text \<open>
  Claim C7. With the brightness and contrast cells both at 100, the two factors are 1:
  the first step of the per-channel computation (times \<open>b\<close>, cut at 255 from above,
  stored) and the second (rescaled around 128 by \<open>c\<close>, stored) each give every byte
  back, so does the two in the source's order, and \<^verbatim>\<open>handleAdjust\<close> leaves the canvas
  as it was. The bytes of a canvas are at most 255.
\<close>

theorem handleAdjust_100_100_identity:
  assumes "brightness r = 100" and "contrast r = 100"
    and "\<forall>v\<in>set (pixels (canvas w)). v \<le> 255"
  shows "(\<forall>v\<le>255. brighten (brightness r / 100) v = v \<and>
                  rescale (contrast r / 100) v = v \<and>
                  adjust_channel (brightness r / 100) (contrast r / 100) v = v) \<and>
         canvas (handleAdjust B r w) = canvas w"
  using assms
  by (simp add: handleAdjust_def brighten_unit rescale_unit adjust_channel_unit adjust_data_unit)

theorem handleAdjust_100_100_identity_witness:
  "brightness initial_react = 100 \<and> contrast initial_react = 100 \<and>
   pixels (canvas red_dot) = [255, 0, 0, 255] \<and>
   adjust_channel (brightness initial_react / 100) (contrast initial_react / 100) 200 = 200 \<and>
   canvas (handleAdjust test_browser initial_react red_dot) = canvas red_dot"
  using handleAdjust_100_100_identity [where r = initial_react and w = red_dot and B = test_browser]
  by (simp add: initial_react_def red_dot_def initial_world_def)

subsection \<open>Loading a stored drawing\<close>

text \<open>
  Claim C10. When the select of \<^verbatim>\<open>loadDrawing\<close> succeeds with a row whose
  \<^verbatim>\<open>canvas_data\<close> is null or the empty string, no state cell changes (so the current
  drawing id keeps its value and no message is set) and the canvas is as it was; the
  select is the only call made.
\<close>

theorem loadDrawing_empty_canvas_data_noop:
  assumes "rep = Success (Some d)" and "canvas_data d = None \<or> canvas_data d = Some []"
  shows "react (loadDrawing B drawingId rep dec w) = react w \<and>
         canvas (loadDrawing B drawingId rep dec w) = canvas w \<and>
         calls_since w (loadDrawing B drawingId rep dec w) =
           [Supabase (SelectCanvasData drawingId)]"
  using assms by (auto simp: loadDrawing_def Let_def calls_since_def)

theorem loadDrawing_empty_canvas_data_noop_witness:
  "canvas_data (stored ''d1'' None) = None \<and>
   react (loadDrawing test_browser ''d1'' (Success (Some (stored ''d1'' None))) Decoded red_dot) =
     react red_dot \<and>
   canvas (loadDrawing test_browser ''d1'' (Success (Some (stored ''d1'' None))) Decoded red_dot) =
     canvas red_dot \<and>
   calls_since red_dot
     (loadDrawing test_browser ''d1'' (Success (Some (stored ''d1'' None))) Decoded red_dot) =
     [Supabase (SelectCanvasData ''d1'')]"
  using loadDrawing_empty_canvas_data_noop
          [where rep = "Success (Some (stored ''d1'' None))" and d = "stored ''d1'' None" and B = test_browser
             and drawingId = "''d1''" and dec = Decoded and w = red_dot]
  by (simp add: stored_def)

subsection \<open>Saving\<close>

lemma saveDrawing_signed_in:
  assumes "user r = Some u"
  shows "saveDrawing B r answer t rep list_rep w =
     (let w1 = supabase_call
                 (InsertDrawing \<lparr>ins_name = (case answer of None \<Rightarrow> ''Drawing '' @ decimal t
                                    | Some n \<Rightarrow> if n = [] then ''Drawing '' @ decimal t else n),
                                 ins_is_public = True,
                                 ins_canvas_data = Some (dataURL B (canvas w)),
                                 ins_created_by = uid u\<rparr>) w in
      case rep of
        Success newDrawing \<Rightarrow>
          loadSavedDrawings list_rep
            (setCurrentDrawingId (Some (drawing_id newDrawing))
              (setMessage (''Drawing saved successfully! '' @ artist_palette) w1))
      | Failure m \<Rightarrow> setMessage (''Error saving drawing: '' @ m) w1
      | Rejected m \<Rightarrow> setMessage (''Error saving drawing: '' @ m) w1)"
  using assms by (simp add: saveDrawing_def Let_def)

text \<open>
  Claim C1. When the render has a user, \<^verbatim>\<open>saveDrawing\<close> sends an insert into
  \<^verbatim>\<open>drawings\<close> whose \<^verbatim>\<open>canvas_data\<close> is the export of the canvas as it is at the call, and
  after a successful insert one select of the list; these are all its requests, so no
  update of any row is ever sent, and the canvas is not changed. When the insert
  succeeds, the id of the returned row becomes \<^verbatim>\<open>currentDrawingId\<close>, and when the select
  succeeds too, its rows become \<^verbatim>\<open>savedDrawings\<close>.
\<close>

theorem saveDrawing_inserts_new_row:
  fixes B r answer t rep list_rep w
  defines "w' \<equiv> saveDrawing B r answer t rep list_rep w"
  assumes u: "user r = Some u"
  shows "requests (calls_since w w') =
            InsertDrawing
              \<lparr>ins_name = (case answer of None \<Rightarrow> ''Drawing '' @ decimal t
                           | Some n \<Rightarrow> if n = [] then ''Drawing '' @ decimal t else n),
               ins_is_public = True,
               ins_canvas_data = Some (dataURL B (canvas w)),
               ins_created_by = uid u\<rparr> #
            (case rep of Success d \<Rightarrow> [SelectDrawings ''created_at'' False]
             | Failure m \<Rightarrow> [] | Rejected m \<Rightarrow> []) \<and>
         (\<forall>i url nm. UpdateDrawing i url nm \<notin> set (requests (calls_since w w'))) \<and>
         canvas w' = canvas w \<and>
         (\<forall>d. rep = Success d \<longrightarrow>
            currentDrawingId (react w') = Some (drawing_id d) \<and>
            (\<forall>ds. list_rep = Success (Some ds) \<longrightarrow> savedDrawings (react w') = ds))"
proof (cases rep)
  case (Success d)
  then show ?thesis
    unfolding w'_def saveDrawing_signed_in [OF u]
    by (simp add: Let_def calls_since_def savedDrawings_loadSavedDrawings)
next
  case (Failure m)
  then show ?thesis
    unfolding w'_def saveDrawing_signed_in [OF u]
    by (simp add: Let_def calls_since_def)
next
  case (Rejected m)
  then show ?thesis
    unfolding w'_def saveDrawing_signed_in [OF u]
    by (simp add: Let_def calls_since_def)
qed

theorem saveDrawing_inserts_new_row_witness:
  "user pen_down = Some alice \<and>
   requests (calls_since red_dot
     (saveDrawing test_browser pen_down (Some ''Sunset'') 1700000000000
        (Success (stored ''d2'' (Some (dataURL test_browser (canvas red_dot)))))
        (Success (Some [stored ''d2'' (Some (dataURL test_browser (canvas red_dot)))])) red_dot)) =
     [InsertDrawing \<lparr>ins_name = ''Sunset'', ins_is_public = True,
                     ins_canvas_data = Some (dataURL test_browser (canvas red_dot)),
                     ins_created_by = ''u1''\<rparr>,
      SelectDrawings ''created_at'' False] \<and>
   currentDrawingId (react
     (saveDrawing test_browser pen_down (Some ''Sunset'') 1700000000000
        (Success (stored ''d2'' (Some (dataURL test_browser (canvas red_dot)))))
        (Success (Some [stored ''d2'' (Some (dataURL test_browser (canvas red_dot)))])) red_dot)) =
     Some ''d2''"
proof -
  have u: "user pen_down = Some alice" by (simp add: pen_down_def)
  show ?thesis
    using u saveDrawing_inserts_new_row [OF u, where B = test_browser and answer = "Some ''Sunset''" and t = 1700000000000
                 and rep = "Success (stored ''d2'' (Some (dataURL test_browser (canvas red_dot))))"
                 and list_rep = "Success (Some [stored ''d2'' (Some (dataURL test_browser (canvas red_dot)))])"
                 and w = red_dot]
    by (simp add: alice_def stored_def)
qed

subsection \<open>Creating the first drawing\<close>

lemma createNewDrawing_no_user: "user r = None \<Longrightarrow> createNewDrawing r t1 rep t2 w = w"
  by (simp add: createNewDrawing_def)

text \<open>The fallback is written: in a render that has a user, a failed insert ends in the
  \<^verbatim>\<open>catch\<close> block, which sets the placeholder id.\<close>

lemma createNewDrawing_fallback:
  assumes "user r = Some u" and "rep = Failure m \<or> rep = Rejected m"
  shows "createNewDrawing r t1 rep t2 w =
           setCurrentDrawingId (Some (''temp-'' @ decimal t2))
             (setMessage (''Error creating drawing: '' @ m)
               (supabase_call
                  (InsertDrawing \<lparr>ins_name = ''Drawing '' @ decimal t1, ins_is_public = True,
                                  ins_canvas_data = None, ins_created_by = uid u\<rparr>) w))"
  using assms by (auto simp: createNewDrawing_def Let_def)

lemma signIn_without_render_user:
  assumes "user r = None"
  shows "signIn r (Success u) list_rep t1 create_rep t2 w =
           setIsLoading False
             (loadSavedDrawings list_rep
               (setShowAuthDropdown False
                 (setPassword []
                   (setEmail []
                     (setMessage (''Signed in successfully! '' @ party_popper)
                       (setUser (Some u)
                         (supabase_call (SignInWithPassword (email r) (password r))
                           (setIsLoading True w))))))))"
  using assms by (simp add: signIn_def Let_def createNewDrawing_no_user)



subsection \<open>Loading a stored drawing: when the canvas is cleared\<close>

lemma loadDrawing_with_data:
  assumes "rep = Success (Some d)" and "canvas_data d = Some src" and "src \<noteq> []"
  shows "loadDrawing B drawingId rep dec w =
     (let w2 = setMessage (''Drawing loaded! '' @ artist_palette)
                 (setCurrentDrawingId (Some drawingId)
                   (supabase_call (SelectCanvasData drawingId) w)) in
      case dec of Decoded \<Rightarrow> img_onload B src w2 | Broken \<Rightarrow> w2)"
  using assms by (cases dec) (simp_all add: loadDrawing_def Let_def)

text \<open>
  Claim C3, as the code has it. When the select of \<^verbatim>\<open>loadDrawing\<close> succeeds with a row
  whose \<^verbatim>\<open>canvas_data\<close> is a non-empty string, \<^verbatim>\<open>currentDrawingId\<close> becomes the id asked
  for. The canvas is not touched by the handler itself: if the image does not decode
  (or has not decoded yet) the canvas is as it was. Once the image has decoded, the
  \<^verbatim>\<open>onload\<close> handler clears the whole canvas and then draws the image at the origin,
  onto an empty buffer when the buffer has the element's size.
\<close>

theorem loadDrawing_clears_at_onload:
  assumes rep: "rep = Success (Some d)" and cd: "canvas_data d = Some src" and src: "src \<noteq> []"
  shows "currentDrawingId (react (loadDrawing B drawingId rep dec w)) = Some drawingId \<and>
         canvas (loadDrawing B drawingId rep Broken w) = canvas w \<and>
         calls_since w (loadDrawing B drawingId rep Decoded w) =
           [Supabase (SelectCanvasData drawingId),
            Ctx (ClearRect 0 0 (width (canvas w)) (height (canvas w))),
            Ctx (DrawImage src)] \<and>
         (wf_canvas (canvas w) \<longrightarrow>
            pixels (canvas (loadDrawing B drawingId rep Decoded w)) =
              imagePixels B src ((canvas w)\<lparr>pixels := blank (canvas w)\<rparr>))"
  unfolding loadDrawing_with_data [OF rep cd src]
  by (cases dec)
     (simp_all add: Let_def img_onload_def clearCanvas_def calls_since_def clearRect_whole)

theorem loadDrawing_clears_at_onload_witness:
  "canvas_data (stored ''d1'' (Some ''data:image/png;base64,AAAA'')) =
     Some ''data:image/png;base64,AAAA'' \<and>
   wf_canvas (canvas red_dot) \<and>
   currentDrawingId (react (loadDrawing test_browser ''d1''
      (Success (Some (stored ''d1'' (Some ''data:image/png;base64,AAAA'')))) Decoded red_dot)) =
     Some ''d1'' \<and>
   pixels (canvas (loadDrawing test_browser ''d1''
      (Success (Some (stored ''d1'' (Some ''data:image/png;base64,AAAA'')))) Decoded red_dot)) =
     [26, 26, 26, 26]"
proof -
  have cd: "canvas_data (stored ''d1'' (Some ''data:image/png;base64,AAAA'')) =
              Some ''data:image/png;base64,AAAA''"
    by (simp add: stored_def)
  have wf: "wf_canvas (canvas red_dot)"
    by (simp add: red_dot_def initial_world_def wf_canvas_def)
  have bl: "blank (canvas red_dot) = [0, 0, 0, 0]"
    by (simp add: red_dot_def initial_world_def blank_def numeral_eq_Suc)
  show ?thesis
    using cd wf
      loadDrawing_clears_at_onload [OF refl cd, where B = test_browser and drawingId = "''d1''" and dec = Decoded
            and w = red_dot]
    by (simp add: bl test_browser_def)
qed

text \<open>
  Claim C3 as stated fails twice. A row fetched with image data whose decode fails
  leaves the red pixel in place, where the claim has an empty canvas; and a row fetched
  with null \<^verbatim>\<open>canvas_data\<close> leaves \<^verbatim>\<open>currentDrawingId\<close> null, where the claim has it set
  to the id asked for.
\<close>

theorem loadDrawing_clear_first_counterexample:
  "pixels (canvas (loadDrawing test_browser ''d1''
      (Success (Some (stored ''d1'' (Some ''data:image/png;base64,AAAA'')))) Broken red_dot)) =
     [255, 0, 0, 255] \<and>
   blank (canvas red_dot) = [0, 0, 0, 0] \<and>
   currentDrawingId (react red_dot) = None \<and>
   currentDrawingId (react (loadDrawing test_browser ''d1''
      (Success (Some (stored ''d1'' None))) Decoded red_dot)) = None"
  by (simp add: loadDrawing_def Let_def stored_def red_dot_def initial_world_def initial_react_def
        blank_def numeral_eq_Suc)

subsection \<open>Signing in\<close>

text \<open>
  Claim C4, evaluated at the sign-in form of a page just loaded, with every Supabase
  call succeeding. The user is set and the list is selected (one request, ordered by
  \<^verbatim>\<open>created_at\<close> descending, without range or limit), but no insert into \<^verbatim>\<open>drawings\<close> is
  sent and \<^verbatim>\<open>currentDrawingId\<close> stays null: \<^verbatim>\<open>createNewDrawing\<close> is the closure of the
  render in which \<^verbatim>\<open>user\<close> is null, and its guard returns at once.
\<close>

theorem signIn_skips_createNewDrawing:
  "user (react sign_in_form) = None \<and>
   user (react (signIn (react sign_in_form) (Success alice) (Success (Some [])) 1700000000000
                  (Success (stored ''d1'' None)) 1700000000250 sign_in_form)) = Some alice \<and>
   currentDrawingId (react (signIn (react sign_in_form) (Success alice) (Success (Some []))
                  1700000000000 (Success (stored ''d1'' None)) 1700000000250 sign_in_form)) = None \<and>
   requests (calls (signIn (react sign_in_form) (Success alice) (Success (Some []))
                  1700000000000 (Success (stored ''d1'' None)) 1700000000250 sign_in_form)) =
     [SignInWithPassword ''alice@example.com'' ''secret'', SelectDrawings ''created_at'' False]"
proof -
  have n: "user (react sign_in_form) = None"
    by (simp add: sign_in_form_def initial_world_def initial_react_def)
  show ?thesis
    unfolding signIn_without_render_user [OF n]
    by (simp add: sign_in_form_def initial_world_def initial_react_def)
qed

end
